theory Spec2Isabelle
  imports Main "HOL-Library.AList"
begin

section \<open>flask\_toolkits.routing: request binding and the rule normalizer\<close>

text \<open>
  A shallow embedding of the functions of \<^verbatim>\<open>src/flask_toolkits/routing.py\<close>
  (class \<^verbatim>\<open>APIRouter\<close>) that bind request values to handler parameters and
  rewrite route patterns. Every Python exception is a value of \<open>py_error\<close>; a
  function that may raise returns \<open>py_error + 'a\<close> with \<open>Inl\<close> the exception.
  Python dictionaries built by the code are association lists in insertion order;
  read-only request channels are partial maps.
\<close>

subsection \<open>Python values and exceptions\<close>

text \<open>
  The run-time values the binder moves around. \<open>PEnum n v\<close> is a member of an
  \<^verbatim>\<open>enum.Enum\<close> subclass with its \<^verbatim>\<open>.value\<close>; \<open>PModel c fs\<close> is an instance of a
  pydantic model class \<open>c\<close> whose \<^verbatim>\<open>vars()\<close> is \<open>fs\<close>; \<open>PFile name data\<close> is a
  werkzeug \<^verbatim>\<open>FileStorage\<close>; \<open>PEllipsis\<close> is \<^verbatim>\<open>...\<close>, the "required" default.
\<close>

datatype pyval =
    PNone
  | PBool bool
  | PInt int
  | PStr string
  | PList "pyval list"
  | PDict "(string \<times> pyval) list"
  | PEnum string pyval
  | PModel string "(string \<times> pyval) list"
  | PFile string string
  | PEllipsis

datatype py_error =
    AssertionError
  | AttributeError
  | IndexError
  | RecursionError
  | SwaggerPathError
  | TypeError
  | ValidationError
  | RequestError

type_synonym pydict = "(string \<times> pyval) list"

subsection \<open>Enum normalisation (lines 566-577)\<close>

text \<open>
  \<^verbatim>\<open>
  def fill_all_enum_value(self, o):
      try:
          datas = {}
          if type(o) == dict:
              for k in o:
                  datas[k] = self.fill_all_enum_value(o[k])
              return datas
          if enum.Enum.__subclasscheck__(o.__class__):
              return o.value
      except:
          return o
      return o
  \<close>
  \<^verbatim>\<open>type(o) == dict\<close> holds of a \<open>PDict\<close> only (a model instance or a list is not a
  dict), the subclass check holds of a \<open>PEnum\<close> only, and \<^verbatim>\<open>o.value\<close> is returned as
  it is. No statement of the \<^verbatim>\<open>try\<close> block raises on these values and the bare
  \<^verbatim>\<open>except\<close> would return \<open>o\<close>, so the result type has no error.
\<close>

fun fill_all_enum_value :: "pyval \<Rightarrow> pyval" where
  "fill_all_enum_value (PDict kvs) = PDict (map (\<lambda>(k, v). (k, fill_all_enum_value v)) kvs)"
| "fill_all_enum_value (PEnum n v) = v"
| "fill_all_enum_value v = v"

fun is_dict :: "pyval \<Rightarrow> bool" where
  "is_dict (PDict kvs) = True"
| "is_dict v = False"

fun is_enum :: "pyval \<Rightarrow> bool" where
  "is_enum (PEnum n v) = True"
| "is_enum v = False"

subsection \<open>Rule normalizer: bracket-to-brace rewrite (lines 665-678)\<close>

text \<open>
  \<^verbatim>\<open>
  def validate_rule_for_swagger(self, rule: str):
      opening_found = False
      new_rule = ""
      for i in range(len(rule)):
          if not opening_found and rule[i] == "<":
              opening_found = True; new_rule += "{"; continue
          if opening_found and rule[i] == ">":
              opening_found = False; new_rule += "}"; continue
          new_rule += rule[i]
      return new_rule
  \<close>
  The loop is \<open>swagger_loop\<close>, with the two local variables as arguments.
\<close>

fun swagger_loop :: "bool \<Rightarrow> string \<Rightarrow> string \<Rightarrow> string" where
  "swagger_loop opening_found new_rule [] = new_rule"
| "swagger_loop opening_found new_rule (c # cs) =
     (if \<not> opening_found \<and> c = CHR ''<'' then swagger_loop True (new_rule @ ''{'') cs
      else if opening_found \<and> c = CHR ''>'' then swagger_loop False (new_rule @ ''}'') cs
      else swagger_loop opening_found (new_rule @ [c]) cs)"

definition validate_rule_for_swagger :: "string \<Rightarrow> string" where
  "validate_rule_for_swagger rule = swagger_loop False [] rule"

subsection \<open>Rule normalizer: rule validation (lines 680-702)\<close>

text \<open>
  \<^verbatim>\<open>
  def validate_rule(self, rule: str):
      pattern = re.compile(r"[<]{1}.*[>]{1}")
      for text in pattern.findall(rule):
          assert text.count(":") in [0,1], ...
      new_rule = ""; start_write_path = False; start_path = []
      for c in rule:
          if c == "<":
              start_path.append(""); start_write_path = True
          elif c == ">":
              if start_path[-1].count(":"):
                  start_path[-1] = start_path[-1][start_path[-1].index(":")+1:]
              start_write_path = False
              new_rule += "<" + start_path[-1] + ">"
          else:
              if not start_write_path: new_rule += c
              else: start_path[-1] += c
      return new_rule
  \<close>
  The regular expression is \<^verbatim>\<open><.*>\<close> with a greedy star, and \<^verbatim>\<open>.\<close> matches every
  character but the newline. Within one line the leftmost match starts at the first
  \<^verbatim>\<open><\<close> and, the star being greedy, ends at the last \<^verbatim>\<open>>\<close> of the line; it exists iff
  a \<^verbatim>\<open>>\<close> follows the first \<^verbatim>\<open><\<close>. After it the line holds no \<^verbatim>\<open>>\<close>, so each line
  gives at most one match: \<open>line_findall\<close>. \<open>findall_angle\<close> is \<^verbatim>\<open>pattern.findall\<close>.
  \<^verbatim>\<open>start_path[-1]\<close> on an empty list raises \<open>IndexError\<close>.
\<close>

fun split_lines :: "string \<Rightarrow> string \<Rightarrow> string list" where
  "split_lines cur [] = [cur]"
| "split_lines cur (c # cs) =
     (if c = CHR 0x0A then cur # split_lines [] cs else split_lines (cur @ [c]) cs)"

definition line_findall :: "string \<Rightarrow> string list" where
  "line_findall l =
     (let s = dropWhile (\<lambda>c. c \<noteq> CHR ''<'') l in
      if s = [] then []
      else let upto = rev (dropWhile (\<lambda>c. c \<noteq> CHR ''>'') (rev (tl s))) in
           if upto = [] then [] else [CHR ''<'' # upto])"

definition findall_angle :: "string \<Rightarrow> string list" where
  "findall_angle rule = concat (map line_findall (split_lines [] rule))"

definition strip_type :: "string \<Rightarrow> string" where
  "strip_type l =
     (if count_list l (CHR '':'') \<noteq> 0
      then drop (length (takeWhile (\<lambda>c. c \<noteq> CHR '':'') l) + 1) l
      else l)"

fun rule_loop :: "string \<Rightarrow> bool \<Rightarrow> string list \<Rightarrow> string \<Rightarrow> py_error + string" where
  "rule_loop new_rule start_write_path start_path [] = Inr new_rule"
| "rule_loop new_rule start_write_path start_path (c # cs) =
     (if c = CHR ''<'' then rule_loop new_rule True (start_path @ [[]]) cs
      else if c = CHR ''>'' then
        (if start_path = [] then Inl IndexError
         else let l = strip_type (last start_path)
              in rule_loop (new_rule @ ''<'' @ l @ ''>'') False (butlast start_path @ [l]) cs)
      else if \<not> start_write_path then rule_loop (new_rule @ [c]) start_write_path start_path cs
      else if start_path = [] then Inl IndexError
      else rule_loop new_rule start_write_path (butlast start_path @ [last start_path @ [c]]) cs)"

definition validate_rule :: "string \<Rightarrow> py_error + string" where
  "validate_rule rule =
     (if list_all (\<lambda>t. count_list t (CHR '':'') = 0 \<or> count_list t (CHR '':'') = 1)
           (findall_angle rule)
      then rule_loop [] False [] rule
      else Inl AssertionError)"

text \<open>
  The rule a route registered through \<^verbatim>\<open>get\<close>, \<^verbatim>\<open>post\<close>, ... or \<^verbatim>\<open>add_url_rule\<close> is
  documented under: \<^verbatim>\<open>_method_route\<close> (line 430) and \<^verbatim>\<open>add_url_rule\<close> (line 462)
  pass \<^verbatim>\<open>self.validate_rule(rule)\<close> to \<^verbatim>\<open>route\<close>, which asserts \<^verbatim>\<open>rule[0] == "/"\<close>
  (line 493) and records \<^verbatim>\<open>self.validate_rule_for_swagger(self.url_prefix+rule)\<close>
  (line 547).
\<close>

definition method_route_rule :: "string \<Rightarrow> string \<Rightarrow> py_error + string" where
  "method_route_rule url_prefix rule =
     (case validate_rule rule of
        Inl e \<Rightarrow> Inl e
      | Inr r \<Rightarrow>
          (case r of
             [] \<Rightarrow> Inl IndexError
           | c # cs \<Rightarrow>
               if c \<noteq> CHR ''/'' then Inl AssertionError
               else Inr (validate_rule_for_swagger (url_prefix @ r))))"


subsection \<open>Path membership of a parameter name (lines 809-818)\<close>

text \<open>
  \<^verbatim>\<open>
  def check_params_in_path(self, key: str, path: str):
      pattern = re.compile("[<]{1}"+key+"[>]{1}")
      matched_keys = pattern.findall(path)
      if len(matched_keys) == 1:
          return True
      elif len(matched_keys) > 1:
          error = f"Invalid path. multiple '{key}' appeared in : {path}"
          raise SwaggerPathError(error)
      return False
  \<close>
  \<open>key\<close> is the name of a declared parameter (a key of
  \<^verbatim>\<open>inspect.signature(func).parameters\<close>), that is a Python identifier: it holds no
  character the expression reads as an operator, so the pattern matches the text
  \<^verbatim>\<open><key>\<close> literally. \<^verbatim>\<open>findall\<close> scans from the left and resumes after each match:
  \<open>findall_placeholder\<close>.
\<close>

function findall_placeholder :: "string \<Rightarrow> string \<Rightarrow> string list" where
  "findall_placeholder key path =
     (let pat = ''<'' @ key @ ''>'' in
      if path = [] then []
      else if take (length pat) path = pat
           then pat # findall_placeholder key (drop (length pat) path)
           else findall_placeholder key (tl path))"
  by pat_completeness auto
termination
  by (relation "measure (\<lambda>(key, path). length path)") auto

declare findall_placeholder.simps [simp del]

definition check_params_in_path :: "string \<Rightarrow> string \<Rightarrow> py_error + bool" where
  "check_params_in_path key path =
     (let matched_keys = findall_placeholder key path in
      if length matched_keys = 1 then Inr True
      else if length matched_keys > 1 then Inl SwaggerPathError
      else Inr False)"

text \<open>
  The number of positions of \<open>path\<close> at which the text \<^verbatim>\<open><key>\<close> stands: how often
  the name appears as a placeholder, in the specification's words.
\<close>

fun occurrences :: "string \<Rightarrow> string \<Rightarrow> nat" where
  "occurrences pat [] = 0"
| "occurrences pat (c # cs) =
     (if take (length pat) (c # cs) = pat then 1 else 0) + occurrences pat cs"

definition placeholder_count :: "string \<Rightarrow> string \<Rightarrow> nat" where
  "placeholder_count key path = occurrences (''<'' @ key @ ''>'') path"


subsection \<open>Dictionaries built by the code\<close>

text \<open>
  A Python \<^verbatim>\<open>dict\<close> keeps its keys in insertion order; assigning to a key that is
  present keeps its place: \<open>AList.update\<close>. \<open>dict_update d e\<close> is \<^verbatim>\<open>d.update(e)\<close> (and
  \<^verbatim>\<open>{**d, **e}\<close>); \<open>dict_of\<close> builds the dictionary of a comprehension from its items
  in the order they are produced.
\<close>

definition dict_update :: "('k \<times> 'v) list \<Rightarrow> ('k \<times> 'v) list \<Rightarrow> ('k \<times> 'v) list" where
  "dict_update d e = fold (\<lambda>kv. AList.update (fst kv) (snd kv)) e d"

definition dict_of :: "('k \<times> 'v) list \<Rightarrow> ('k \<times> 'v) list" where
  "dict_of items = dict_update [] items"

subsection \<open>Classes, annotations and parameter objects\<close>

text \<open>
  The objects the code inspects by class: \<open>AModel c\<close> is a subclass of
  \<^verbatim>\<open>pydantic.BaseModel\<close>; \<open>AClass c\<close> any other class (\<^verbatim>\<open>int\<close>, \<^verbatim>\<open>str\<close>,
  \<^verbatim>\<open>FileStorage\<close>, an enum class); \<open>AGeneric args\<close> an object whose class is
  \<^verbatim>\<open>typing._GenericAlias\<close> or \<^verbatim>\<open>typing._SpecialForm\<close> and that has \<^verbatim>\<open>__args__\<close>
  (\<^verbatim>\<open>Optional[Model]\<close>, \<^verbatim>\<open>List[Model]\<close>); \<open>ASpecial\<close> a \<^verbatim>\<open>typing._SpecialForm\<close> without
  \<^verbatim>\<open>__args__\<close> (\<^verbatim>\<open>typing.Any\<close>); \<open>AFunc f\<close> a function; \<open>ANone\<close> is \<^verbatim>\<open>None\<close>.
\<close>

datatype pyobj =
    AModel string
  | AClass string
  | AGeneric "pyobj list"
  | ASpecial
  | AFunc string
  | ANone

text \<open>
  Modelled from the spec: the parameter classes of \<^verbatim>\<open>params.py\<close>, which is not among
  the sources. The specification gives the parameter sources as a closed set of
  variants, \<^verbatim>\<open>Path, Query, Header, Body, Form, FormEncoded, File\<close>, each instance
  carrying a default (\<^verbatim>\<open>...\<close> when required), an optional alias and, for a Body, the
  declared type. The code reads them as \<^verbatim>\<open>po.default\<close>, \<^verbatim>\<open>po.alias\<close> and \<^verbatim>\<open>po.dtype\<close>,
  and a \<^verbatim>\<open>ParamSignature(k, default_type, default_value)\<close> as \<^verbatim>\<open>pp._type\<close> and
  \<^verbatim>\<open>pp.param_object\<close>.
\<close>

datatype param_kind = Path | Header | Query | Body | Form | FormURLEncoded | File

record param_obj =
  po_kind :: param_kind
  po_default :: pyval
  po_alias :: "string option"
  po_dtype :: pyobj

record param_signature =
  ps_name :: string
  ps_type :: pyobj
  param_object :: param_obj

type_synonym paired_params = "(string \<times> param_signature) list"

text \<open>\<^verbatim>\<open>po.alias or k\<close>: an alias that is \<^verbatim>\<open>None\<close> or empty gives the key.\<close>

definition alias_or :: "param_obj \<Rightarrow> string \<Rightarrow> string" where
  "alias_or po k = (case po_alias po of None \<Rightarrow> k | Some a \<Rightarrow> if a = [] then k else a)"

subsection \<open>Unwrapping an annotation (lines 654-663)\<close>

text \<open>
  \<^verbatim>\<open>
  def get_pydantic_from_annots(self, annot):
      try:
          if BaseModel.__subclasscheck__(annot):
              return annot
      except:
          pass
      if annot.__class__ in [t._GenericAlias, t._SpecialForm]:
          for a in annot.__args__:
              b = self.get_pydantic_from_annots(a)
              return b if b else annot
  \<close>
  The loop returns in its first round, so only the first argument is looked at;
  with no argument, and for every other object, the function falls off its end
  and returns \<^verbatim>\<open>None\<close> (\<open>Inr None\<close>). \<^verbatim>\<open>__args__\<close> of a special form that has none
  raises \<open>AttributeError\<close>. \<^verbatim>\<open>BaseModel.__subclasscheck__\<close> raises \<open>TypeError\<close> on an
  object that is not a class; here that is caught, in \<^verbatim>\<open>get_kwargs\<close> it is not.
\<close>

fun get_pydantic_from_annots :: "pyobj \<Rightarrow> py_error + pyobj option" where
  "get_pydantic_from_annots (AModel m) = Inr (Some (AModel m))"
| "get_pydantic_from_annots (AGeneric []) = Inr None"
| "get_pydantic_from_annots (AGeneric (a # as)) =
     (case get_pydantic_from_annots a of
        Inl e \<Rightarrow> Inl e
      | Inr None \<Rightarrow> Inr (Some (AGeneric (a # as)))
      | Inr (Some b) \<Rightarrow> Inr (Some b))"
| "get_pydantic_from_annots ASpecial = Inl AttributeError"
| "get_pydantic_from_annots (AClass c) = Inr None"
| "get_pydantic_from_annots (AFunc f) = Inr None"
| "get_pydantic_from_annots ANone = Inr None"

fun basemodel_subclasscheck :: "pyobj \<Rightarrow> py_error + bool" where
  "basemodel_subclasscheck (AModel m) = Inr True"
| "basemodel_subclasscheck (AClass c) = Inr False"
| "basemodel_subclasscheck b = Inl TypeError"

subsection \<open>Alias tables (lines 773-807)\<close>

text \<open>
  \<^verbatim>\<open>
  def get_params_aliases(self, paired_params):
      aliases = {"path": {}, "header": {}, "query": {}, "body": {}, "form": {}, "file": {}}
      for key, pp in paired_params.items():
          if isinstance(pp.param_object, Path):
              aliases["path"][key] = pp.param_object.alias or key
          elif isinstance(pp.param_object, Header): ...
          elif isinstance(pp.param_object, Query): ...
          elif isinstance(pp.param_object, Body): ...
          elif isinstance(pp.param_object, (Form, FormURLEncoded)): ...
          elif isinstance(pp.param_object, File): ...
      return aliases

  def convert_alias_to_name(self, aliases, input_name):
      converted_name = [aliases[key] for key in input_name if key in aliases]
      return converted_name

  def count_required_body(self, paired_params):
      total = 0
      for pp in paired_params.values():
          po = pp.param_object
          if type(po) == Body:
              total += 1
      return total
  \<close>
  The table of one source maps a binding key to its name on the wire.
  \<open>convert_alias_to_name\<close> returns the wire names of the keys that the table holds.
\<close>

record aliases =
  al_path :: "(string \<times> string) list"
  al_header :: "(string \<times> string) list"
  al_query :: "(string \<times> string) list"
  al_body :: "(string \<times> string) list"
  al_form :: "(string \<times> string) list"
  al_file :: "(string \<times> string) list"

definition add_alias :: "string \<times> param_signature \<Rightarrow> aliases \<Rightarrow> aliases" where
  "add_alias item a =
     (let key = fst item; po = param_object (snd item); name = alias_or po key in
      case po_kind po of
        Path \<Rightarrow> a\<lparr>al_path := AList.update key name (al_path a)\<rparr>
      | Header \<Rightarrow> a\<lparr>al_header := AList.update key name (al_header a)\<rparr>
      | Query \<Rightarrow> a\<lparr>al_query := AList.update key name (al_query a)\<rparr>
      | Body \<Rightarrow> a\<lparr>al_body := AList.update key name (al_body a)\<rparr>
      | Form \<Rightarrow> a\<lparr>al_form := AList.update key name (al_form a)\<rparr>
      | FormURLEncoded \<Rightarrow> a\<lparr>al_form := AList.update key name (al_form a)\<rparr>
      | File \<Rightarrow> a\<lparr>al_file := AList.update key name (al_file a)\<rparr>)"

definition get_params_aliases :: "paired_params \<Rightarrow> aliases" where
  "get_params_aliases paired_params =
     fold add_alias paired_params
       \<lparr>al_path = [], al_header = [], al_query = [], al_body = [], al_form = [], al_file = []\<rparr>"

definition convert_alias_to_name :: "(string \<times> string) list \<Rightarrow> string list \<Rightarrow> string list" where
  "convert_alias_to_name al input_name = List.map_filter (map_of al) input_name"

definition count_required_body :: "paired_params \<Rightarrow> nat" where
  "count_required_body paired_params =
     length (filter (\<lambda>item. po_kind (param_object (snd item)) = Body) paired_params)"

subsection \<open>The request and the schema (external collaborators)\<close>

text \<open>
  What \<^verbatim>\<open>get_kwargs\<close> reads of the Flask request: \<^verbatim>\<open>request.method\<close>,
  \<^verbatim>\<open>request.args.to_dict()\<close>, \<^verbatim>\<open>request.headers.get\<close>, \<^verbatim>\<open>request.form.get\<close>,
  \<^verbatim>\<open>request.files.get\<close> (each \<^verbatim>\<open>None\<close> on a missing name) and \<^verbatim>\<open>request.json\<close>, whose
  reading can itself raise (\<open>Inl\<close>).

  The pydantic model of a route is used through \<^verbatim>\<open>__fields__.keys()\<close> and through its
  constructor \<^verbatim>\<open>pydantic_model(**kwargs)\<close>, which returns a model instance or raises
  \<open>ValidationError\<close>; the library is no part of the repository, so the validation is
  a field of the schema. A \<open>constructor\<close> is the call \<^verbatim>\<open>b(**d)\<close> of a class on keyword
  arguments.
\<close>

record request =
  req_method :: string
  req_args :: "string \<rightharpoonup> string"
  req_headers :: "string \<rightharpoonup> string"
  req_form :: "string \<rightharpoonup> string"
  req_files :: "string \<rightharpoonup> pyval"
  req_json :: "py_error + pyval"

record pydantic_schema =
  schema_fields :: "string list"
  schema_validate :: "pydict \<Rightarrow> py_error + pyval"

type_synonym constructor = "pyobj \<Rightarrow> pydict \<Rightarrow> py_error + pyval"

text \<open>
  Modelled from the spec: \<^verbatim>\<open>BaseSchema.get_non_exist_var_in_kwargs\<close> of \<^verbatim>\<open>schemas.py\<close>,
  which is not among the sources. The specification: "Determine, from the schema,
  which declared binding keys are still absent from the working set".
\<close>

definition get_non_exist_var_in_kwargs :: "pydantic_schema \<Rightarrow> pydict \<Rightarrow> string list" where
  "get_non_exist_var_in_kwargs pydantic_model kwargs =
     filter (\<lambda>k. map_of kwargs k = None) (schema_fields pydantic_model)"

text \<open>
  Python's truth value of the objects the comprehensions test: \<^verbatim>\<open>None\<close>, an empty
  string and an empty container are false, and a \<^verbatim>\<open>FileStorage\<close> is true iff its
  filename is not empty.
\<close>

fun truthy :: "pyval \<Rightarrow> bool" where
  "truthy PNone = False"
| "truthy (PBool b) = b"
| "truthy (PInt i) = (i \<noteq> 0)"
| "truthy (PStr s) = (s \<noteq> [])"
| "truthy (PList xs) = (xs \<noteq> [])"
| "truthy (PDict d) = (d \<noteq> [])"
| "truthy (PFile name data) = (name \<noteq> [])"
| "truthy v = True"

subsection \<open>Binding a request: extraction (lines 714-735)\<close>

text \<open>
  \<^verbatim>\<open>
  variables = pydantic_model.__fields__.keys()
  kwargs = {**paths}
  queries = request.args.to_dict()
  query_kwargs = {k: queries[k]
      for k in self.convert_alias_to_name(aliases["query"], variables) if k in queries}
  kwargs.update(query_kwargs)
  header_kwargs = {k: request.headers.get(k)
      for k in self.convert_alias_to_name(aliases["header"], variables)
      if request.headers.get(k)}
  kwargs.update(header_kwargs)
  if request.method != "GET":
      form_kwargs = {k: request.form.get(k)
          for k in self.convert_alias_to_name(aliases["form"], variables)
          if request.form.get(k)}
      file_kwargs = {k: request.files.get(k)
          for k in self.convert_alias_to_name(aliases["file"], variables)
          if request.files.get(k)}
      dummy_file_kwargs = {k: "__dummy" for k in file_kwargs}
      kwargs = {**form_kwargs, **dummy_file_kwargs}
  \<close>
  Each comprehension runs over wire names and keys its result by them. The
  definitions keep the names of the local variables; \<open>query_merged\<close> is \<^verbatim>\<open>kwargs\<close>
  after the query values are merged and \<open>working_kwargs\<close> is \<^verbatim>\<open>kwargs\<close> at line 735.
\<close>

definition query_kwargs :: "request \<Rightarrow> aliases \<Rightarrow> string list \<Rightarrow> pydict" where
  "query_kwargs req al variables =
     dict_of (List.map_filter
       (\<lambda>k. case req_args req k of None \<Rightarrow> None | Some v \<Rightarrow> Some (k, PStr v))
       (convert_alias_to_name (al_query al) variables))"

definition header_kwargs :: "request \<Rightarrow> aliases \<Rightarrow> string list \<Rightarrow> pydict" where
  "header_kwargs req al variables =
     dict_of (List.map_filter
       (\<lambda>k. case req_headers req k of
              None \<Rightarrow> None
            | Some v \<Rightarrow> if v = [] then None else Some (k, PStr v))
       (convert_alias_to_name (al_header al) variables))"

definition form_kwargs :: "request \<Rightarrow> aliases \<Rightarrow> string list \<Rightarrow> pydict" where
  "form_kwargs req al variables =
     dict_of (List.map_filter
       (\<lambda>k. case req_form req k of
              None \<Rightarrow> None
            | Some v \<Rightarrow> if v = [] then None else Some (k, PStr v))
       (convert_alias_to_name (al_form al) variables))"

definition file_kwargs :: "request \<Rightarrow> aliases \<Rightarrow> string list \<Rightarrow> pydict" where
  "file_kwargs req al variables =
     dict_of (List.map_filter
       (\<lambda>k. case req_files req k of
              None \<Rightarrow> None
            | Some f \<Rightarrow> if truthy f then Some (k, f) else None)
       (convert_alias_to_name (al_file al) variables))"

definition dummy_file_kwargs :: "pydict \<Rightarrow> pydict" where
  "dummy_file_kwargs fk = dict_of (map (\<lambda>kv. (fst kv, PStr ''__dummy'')) fk)"

definition query_merged :: "pydict \<Rightarrow> request \<Rightarrow> aliases \<Rightarrow> string list \<Rightarrow> pydict" where
  "query_merged paths req al variables = dict_update paths (query_kwargs req al variables)"

definition working_kwargs :: "pydict \<Rightarrow> request \<Rightarrow> aliases \<Rightarrow> string list \<Rightarrow> pydict" where
  "working_kwargs paths req al variables =
     (let kwargs = query_merged paths req al variables;
          kwargs = dict_update kwargs (header_kwargs req al variables)
      in if req_method req \<noteq> ''GET''
         then dict_update (form_kwargs req al variables)
                (dummy_file_kwargs (file_kwargs req al variables))
         else kwargs)"

subsection \<open>Binding a request: the JSON body (lines 737-759)\<close>

text \<open>
  \<^verbatim>\<open>
  empty_keys = pydantic_model.get_non_exist_var_in_kwargs(**kwargs)
  total_body = self.count_required_body(paired_params)
  if total_body:
      for k in empty_keys:
          if k in paired_params:
              po = paired_params[k].param_object
              if type(po) == Body:
                  ak = po.alias or k
                  kwargs[k] = None
                  if request.method != "GET":
                      b = self.get_pydantic_from_annots(po.dtype)
                      if b:
                          if BaseModel.__subclasscheck__(b):
                              if total_body == 1:
                                  kwargs[k] = b(**request.json)
                              else:
                                  kwargs[k] = b(**request.json.get(ak, None))
                          else:
                              kwargs[k] = request.json.get(ak, None)
                      else:
                          kwargs[k] = request.json.get(ak, None)
  \<close>
  \<^verbatim>\<open>request.json.get\<close> raises \<open>AttributeError\<close> when the payload is no dictionary, and
  \<^verbatim>\<open>b(**x)\<close> raises \<open>TypeError\<close> when \<open>x\<close> is no mapping. \<open>body_value\<close> is the value
  assigned to \<^verbatim>\<open>kwargs[k]\<close> in one round, \<open>body_loop\<close> the loop, and \<open>bound_kwargs\<close> is
  \<^verbatim>\<open>kwargs\<close> as it reaches validation (lines 714-759).
\<close>

definition json_get :: "py_error + pyval \<Rightarrow> string \<Rightarrow> py_error + pyval" where
  "json_get payload ak =
     (case payload of
        Inl e \<Rightarrow> Inl e
      | Inr (PDict d) \<Rightarrow> Inr (case map_of d ak of None \<Rightarrow> PNone | Some v \<Rightarrow> v)
      | Inr other \<Rightarrow> Inl AttributeError)"

definition call_with_kwargs :: "constructor \<Rightarrow> pyobj \<Rightarrow> py_error + pyval \<Rightarrow> py_error + pyval" where
  "call_with_kwargs mk b arg =
     (case arg of
        Inl e \<Rightarrow> Inl e
      | Inr (PDict d) \<Rightarrow> mk b d
      | Inr other \<Rightarrow> Inl TypeError)"

definition body_value ::
  "constructor \<Rightarrow> request \<Rightarrow> nat \<Rightarrow> string \<Rightarrow> param_obj \<Rightarrow> py_error + pyval" where
  "body_value mk req total_body k po =
     (let ak = alias_or po k in
      if req_method req \<noteq> ''GET'' then
        (case get_pydantic_from_annots (po_dtype po) of
           Inl e \<Rightarrow> Inl e
         | Inr None \<Rightarrow> json_get (req_json req) ak
         | Inr (Some b) \<Rightarrow>
             (case basemodel_subclasscheck b of
                Inl e \<Rightarrow> Inl e
              | Inr False \<Rightarrow> json_get (req_json req) ak
              | Inr True \<Rightarrow>
                  if total_body = 1 then call_with_kwargs mk b (req_json req)
                  else call_with_kwargs mk b (json_get (req_json req) ak)))
      else Inr PNone)"

fun body_loop ::
  "constructor \<Rightarrow> request \<Rightarrow> paired_params \<Rightarrow> nat \<Rightarrow> string list \<Rightarrow> pydict \<Rightarrow> py_error + pydict"
  where
  "body_loop mk req paired_params total_body [] kwargs = Inr kwargs"
| "body_loop mk req paired_params total_body (k # ks) kwargs =
     (case map_of paired_params k of
        None \<Rightarrow> body_loop mk req paired_params total_body ks kwargs
      | Some sg \<Rightarrow>
          if po_kind (param_object sg) = Body then
            (case body_value mk req total_body k (param_object sg) of
               Inl e \<Rightarrow> Inl e
             | Inr v \<Rightarrow> body_loop mk req paired_params total_body ks (AList.update k v kwargs))
          else body_loop mk req paired_params total_body ks kwargs)"

definition bound_kwargs ::
  "constructor \<Rightarrow> pydict \<Rightarrow> request \<Rightarrow> paired_params \<Rightarrow> pydantic_schema \<Rightarrow> aliases
     \<Rightarrow> py_error + pydict" where
  "bound_kwargs mk paths req paired_params pydantic_model al =
     (let kwargs = working_kwargs paths req al (schema_fields pydantic_model);
          empty_keys = get_non_exist_var_in_kwargs pydantic_model kwargs;
          total_body = count_required_body paired_params
      in if total_body \<noteq> 0
         then body_loop mk req paired_params total_body empty_keys kwargs
         else Inr kwargs)"

subsection \<open>Binding a request: validation and the result (lines 762-771)\<close>

text \<open>
  \<^verbatim>\<open>
  valid_kwargs = pydantic_model(**kwargs)
  valid_kwargs = self.fill_all_enum_value(valid_kwargs)
  valid_kwargs = vars(valid_kwargs)
  # file kwargs should be placed after pydantic to make sure its not converted
  if request.method != "GET":
      valid_kwargs.update(file_kwargs)
  return valid_kwargs
  \<close>
  \<^verbatim>\<open>vars\<close> of a model instance is the dictionary of its fields, keyed by field name.
\<close>

fun py_vars :: "pyval \<Rightarrow> py_error + pydict" where
  "py_vars (PModel c fs) = Inr fs"
| "py_vars v = Inl TypeError"

definition get_kwargs ::
  "constructor \<Rightarrow> pydict \<Rightarrow> request \<Rightarrow> paired_params \<Rightarrow> pydantic_schema \<Rightarrow> aliases
     \<Rightarrow> py_error + pydict" where
  "get_kwargs mk paths req paired_params pydantic_model al =
     (case bound_kwargs mk paths req paired_params pydantic_model al of
        Inl e \<Rightarrow> Inl e
      | Inr kwargs \<Rightarrow>
          (case schema_validate pydantic_model kwargs of
             Inl e \<Rightarrow> Inl e
           | Inr valid \<Rightarrow>
               (case py_vars (fill_all_enum_value valid) of
                  Inl e \<Rightarrow> Inl e
                | Inr valid_kwargs \<Rightarrow>
                    if req_method req \<noteq> ''GET''
                    then Inr (dict_update valid_kwargs
                                (file_kwargs req al (schema_fields pydantic_model)))
                    else Inr valid_kwargs)))"

subsection \<open>Resolving a handler's signature (lines 590-652)\<close>

text \<open>
  \<^verbatim>\<open>
  def _get_func_signature(self, path, func):
      params_signature = inspect.signature(func).parameters
      annots = func.__annotations__
      pair = {}
      for k, p in params_signature.items():
          if p.default != inspect._empty:
              if type(p.default) not in _ParamsClasses:
                  if type(p.default) == Depends:
                      try:
                          if k not in annots:
                              annots[k] = str
                          if not p.default.obj:
                              if k in annots:
                                  p.default.obj = annots[k]
                          if callable(p.default.obj):
                              pair.update(self._get_func_signature(path, p.default.obj))
                          continue
                      except:
                          default_value = Query(None)
                  else:
                      default_value = Query(p.default)
              else:
                  default_value = p.default
          else:
              default_value = Query(...)
          if self.check_params_in_path(k, path):
              default_value = Path(default_value.default)
          if k in annots:
              default_type = annots[k]
              if type(default_value) in _FormClasses:
                  default_type = str if default_type == FileStorage else default_type
          else:
              if type(default_value) in _FormClasses:
                  default_type = Any
              else:
                  default_type = str
          if type(default_value) not in _FormClasses:
              default_value = self.define_body_from_annots(default_value, default_type)
          pair[k] = ParamSignature(k, default_type, default_value)
      if self.dependecies:
          for dependency in self.dependecies:
              if callable(dependency):
                  pair.update(self._get_func_signature(path, dependency))
      return pair

  def define_body_from_annots(self, default_value, annot):
      pydantic_model = self.get_pydantic_from_annots(annot)
      if pydantic_model:
          return Body(default_value.default, pydantic_model=pydantic_model)
      else:
          return default_value
  \<close>
  A handler is known through \<^verbatim>\<open>inspect.signature(func).parameters\<close> and
  \<^verbatim>\<open>func.__annotations__\<close>: an \<open>inspector\<close> gives both for a callable, or the
  exception \<^verbatim>\<open>inspect.signature\<close> raises. The default of a parameter is absent, a
  parameter object, a \<^verbatim>\<open>Depends\<close> marker with its \<^verbatim>\<open>obj\<close>, or any other value.
  Every object but \<^verbatim>\<open>None\<close> is callable (classes, functions and typing aliases
  are). The two assignments in the \<^verbatim>\<open>try\<close> block store what a later call would
  compute again, so they are kept as local values.

  The function calls itself without bound where the code does. Python allows a
  limited call depth and raises \<open>RecursionError\<close> beyond it: \<open>depth\<close> is the number
  of nested calls still allowed. The bare \<^verbatim>\<open>except\<close> of the \<^verbatim>\<open>Depends\<close> branch catches
  every exception of the nested call, this one included.

  Modelled from the spec: the constructors \<^verbatim>\<open>Query\<close>, \<^verbatim>\<open>Path\<close> and \<^verbatim>\<open>Body\<close> and the tuple
  \<^verbatim>\<open>_FormClasses\<close> of \<^verbatim>\<open>params.py\<close>, which is not among the sources: a new parameter
  object carries its default and no alias, a Body "carries a reference to a nested
  structured type", and the form classes are Form, FormEncoded and File ("if the
  resolved source is not Form/File ... wrap the default as a Body").
\<close>

datatype pdefault = NoDefault | PlainDefault pyval | ParamDefault param_obj | DependsDefault pyobj

record func_info =
  fi_params :: "(string \<times> pdefault) list"
  fi_annots :: "(string \<times> pyobj) list"

type_synonym inspector = "pyobj \<Rightarrow> py_error + func_info"

definition new_param :: "param_kind \<Rightarrow> pyval \<Rightarrow> param_obj" where
  "new_param kind dflt = \<lparr>po_kind = kind, po_default = dflt, po_alias = None, po_dtype = ANone\<rparr>"

definition new_body :: "pyval \<Rightarrow> pyobj \<Rightarrow> param_obj" where
  "new_body dflt pydantic_model =
     \<lparr>po_kind = Body, po_default = dflt, po_alias = None, po_dtype = pydantic_model\<rparr>"

definition is_form_class :: "param_kind \<Rightarrow> bool" where
  "is_form_class kind = (kind = Form \<or> kind = FormURLEncoded \<or> kind = File)"

fun py_callable :: "pyobj \<Rightarrow> bool" where
  "py_callable ANone = False"
| "py_callable obj = True"

definition define_body_from_annots :: "param_obj \<Rightarrow> pyobj \<Rightarrow> py_error + param_obj" where
  "define_body_from_annots default_value annot =
     (case get_pydantic_from_annots annot of
        Inl e \<Rightarrow> Inl e
      | Inr None \<Rightarrow> Inr default_value
      | Inr (Some pydantic_model) \<Rightarrow> Inr (new_body (po_default default_value) pydantic_model))"

text \<open>
  \<open>finish_param\<close> is the rest of one round of the loop once \<^verbatim>\<open>default_value\<close> is set:
  the path check, the default type, the Body wrapping and the assignment to
  \<^verbatim>\<open>pair[k]\<close>.
\<close>

definition finish_param ::
  "string \<Rightarrow> string \<Rightarrow> (string \<times> pyobj) list \<Rightarrow> param_obj \<Rightarrow> paired_params
     \<Rightarrow> py_error + paired_params" where
  "finish_param path k annots default_value pair =
     (case check_params_in_path k path of
        Inl e \<Rightarrow> Inl e
      | Inr in_path \<Rightarrow>
          let dv = (if in_path then new_param Path (po_default default_value) else default_value);
              default_type =
                (case map_of annots k of
                   Some t \<Rightarrow>
                     if is_form_class (po_kind dv) \<and> t = AClass ''FileStorage''
                     then AClass ''str'' else t
                 | None \<Rightarrow> if is_form_class (po_kind dv) then ASpecial else AClass ''str'')
          in case (if is_form_class (po_kind dv) then Inr dv
                   else define_body_from_annots dv default_type) of
               Inl e \<Rightarrow> Inl e
             | Inr dv' \<Rightarrow>
                 Inr (AList.update k
                        \<lparr>ps_name = k, ps_type = default_type, param_object = dv'\<rparr> pair))"

fun own_params ::
  "(pyobj \<Rightarrow> py_error + paired_params) \<Rightarrow> string \<Rightarrow> (string \<times> pyobj) list
     \<Rightarrow> (string \<times> pdefault) list \<Rightarrow> paired_params \<Rightarrow> py_error + paired_params" where
  "own_params recurse path annots [] pair = Inr pair"
| "own_params recurse path annots ((k, NoDefault) # ps) pair =
     (case finish_param path k annots (new_param Query PEllipsis) pair of
        Inl e \<Rightarrow> Inl e
      | Inr pair' \<Rightarrow> own_params recurse path annots ps pair')"
| "own_params recurse path annots ((k, PlainDefault v) # ps) pair =
     (case finish_param path k annots (new_param Query v) pair of
        Inl e \<Rightarrow> Inl e
      | Inr pair' \<Rightarrow> own_params recurse path annots ps pair')"
| "own_params recurse path annots ((k, ParamDefault po) # ps) pair =
     (case finish_param path k annots po pair of
        Inl e \<Rightarrow> Inl e
      | Inr pair' \<Rightarrow> own_params recurse path annots ps pair')"
| "own_params recurse path annots ((k, DependsDefault obj) # ps) pair =
     (let annots' = (if map_of annots k = None then AList.update k (AClass ''str'') annots
                     else annots);
          obj' = (if obj = ANone then (case map_of annots' k of Some t \<Rightarrow> t | None \<Rightarrow> obj)
                  else obj)
      in if py_callable obj' then
           (case recurse obj' of
              Inr sub \<Rightarrow> own_params recurse path annots' ps (dict_update pair sub)
            | Inl e \<Rightarrow>
                (case finish_param path k annots' (new_param Query PNone) pair of
                   Inl e' \<Rightarrow> Inl e'
                 | Inr pair' \<Rightarrow> own_params recurse path annots' ps pair'))
         else own_params recurse path annots' ps pair)"

fun dependency_loop ::
  "(pyobj \<Rightarrow> py_error + paired_params) \<Rightarrow> pyobj list \<Rightarrow> paired_params
     \<Rightarrow> py_error + paired_params" where
  "dependency_loop recurse [] pair = Inr pair"
| "dependency_loop recurse (dependency # ds) pair =
     (if py_callable dependency then
        (case recurse dependency of
           Inl e \<Rightarrow> Inl e
         | Inr sub \<Rightarrow> dependency_loop recurse ds (dict_update pair sub))
      else dependency_loop recurse ds pair)"

primrec get_func_signature ::
  "inspector \<Rightarrow> pyobj list \<Rightarrow> string \<Rightarrow> nat \<Rightarrow> pyobj \<Rightarrow> py_error + paired_params" where
  "get_func_signature inspect dependecies path 0 func = Inl RecursionError"
| "get_func_signature inspect dependecies path (Suc depth) func =
     (case inspect func of
        Inl e \<Rightarrow> Inl e
      | Inr fi \<Rightarrow>
          (case own_params (get_func_signature inspect dependecies path depth) path
                  (fi_annots fi) (fi_params fi) [] of
             Inl e \<Rightarrow> Inl e
           | Inr pair \<Rightarrow>
               dependency_loop (get_func_signature inspect dependecies path depth)
                 dependecies pair))"

subsection \<open>Registering a route (lines 478-500, 820-823)\<close>

text \<open>
  \<^verbatim>\<open>
  def update_dependencies(self, stack):
      for s in stack:
          if s not in self.dependecies:
              self.dependecies.append(s)

  def route(self, rule, ..., dependencies = [], **options):
      assert rule[0] == "/", ...
      security = self.security if not security else security
      self.update_dependencies(dependencies)
      def decorator(func):
          paired_params = self._get_func_signature(rule, func)
          ...
  \<close>
  \<open>route\<close> is the registration up to the resolved signature: it returns the
  router's dependency list as the call leaves it, and the signature or the
  exception that ends the registration.
\<close>

fun update_dependencies :: "pyobj list \<Rightarrow> pyobj list \<Rightarrow> pyobj list" where
  "update_dependencies dependecies [] = dependecies"
| "update_dependencies dependecies (s # stack) =
     update_dependencies (if s \<in> set dependecies then dependecies else dependecies @ [s]) stack"

definition route ::
  "inspector \<Rightarrow> nat \<Rightarrow> pyobj list \<Rightarrow> string \<Rightarrow> pyobj list \<Rightarrow> pyobj
     \<Rightarrow> pyobj list \<times> (py_error + paired_params)" where
  "route inspect depth dependecies rule dependencies func =
     (case rule of
        [] \<Rightarrow> (dependecies, Inl IndexError)
      | c # cs \<Rightarrow>
          if c \<noteq> CHR ''/'' then (dependecies, Inl AssertionError)
          else let dependecies' = update_dependencies dependecies dependencies
               in (dependecies', get_func_signature inspect dependecies' rule depth func))"

subsection \<open>Example routes and requests\<close>

text \<open>
  Concrete inputs on which the definitions are evaluated. \<open>plain_constructor\<close>
  builds a model instance from its keyword arguments as they are;
  \<open>alias_schema\<close> is a schema whose fields are all optional, each read under its
  wire name and not coerced; \<open>color_schema\<close> turns the string \<^verbatim>\<open>red\<close> into the member
  \<^verbatim>\<open>Color.RED\<close> of an enum, as pydantic does for a field of an enum type.
  \<open>create_inspector\<close> knows a handler
  \<^verbatim>\<open>create(user: UserModel = Body(...), meta: MetaModel = Body(..., alias="metadata"))\<close>;
  \<open>registered_create\<close> is the signature its registration resolves, and
  \<open>create_request k\<close> a POST whose payload holds the object for \<^verbatim>\<open>meta\<close> under the
  name \<open>k\<close>.
  \<open>search_route\<close> is \<^verbatim>\<open>/items/<id>\<close> with \<^verbatim>\<open>q = Query(alias="search")\<close> and \<^verbatim>\<open>page\<close>;
  \<open>clash_route\<close> gives \<^verbatim>\<open>q\<close> the alias \<^verbatim>\<open>id\<close>, the name of its path parameter.
  \<open>token_inspector\<close> knows a handler \<^verbatim>\<open>list_items(page: int = 1)\<close> and a dependency
  \<^verbatim>\<open>get_token(token: str)\<close>.
\<close>

definition plain_constructor :: constructor where
  "plain_constructor b d = (case b of AModel m \<Rightarrow> Inr (PModel m d) | other \<Rightarrow> Inl TypeError)"

definition alias_schema :: "(string \<times> string) list \<Rightarrow> pydantic_schema" where
  "alias_schema fs =
     \<lparr>schema_fields = map fst fs,
      schema_validate = (\<lambda>kwargs. Inr (PModel ''Schema''
          (map (\<lambda>fa. (fst fa, case map_of kwargs (snd fa) of None \<Rightarrow> PNone | Some v \<Rightarrow> v)) fs)))\<rparr>"

definition declared :: "string \<Rightarrow> param_kind \<Rightarrow> string option \<Rightarrow> pyobj \<Rightarrow> string \<times> param_signature" where
  "declared k kind alias t =
     (k, \<lparr>ps_name = k, ps_type = t,
          param_object = \<lparr>po_kind = kind, po_default = PEllipsis, po_alias = alias, po_dtype = t\<rparr>\<rparr>)"

definition empty_request :: "string \<Rightarrow> request" where
  "empty_request m =
     \<lparr>req_method = m, req_args = Map.empty, req_headers = Map.empty, req_form = Map.empty,
      req_files = Map.empty, req_json = Inr PNone\<rparr>"

definition one_body_route :: paired_params where
  "one_body_route = [declared ''user'' Body None (AModel ''UserModel'')]"

definition get_body_request :: request where
  "get_body_request = (empty_request ''GET'')
     \<lparr>req_json := Inr (PDict [(''name'', PStr ''a''), (''age'', PInt 3)])\<rparr>"

definition color_route :: paired_params where
  "color_route = [declared ''color'' Query None (AClass ''Color'')]"

definition color_request :: request where
  "color_request = (empty_request ''GET'')\<lparr>req_args := [''color'' \<mapsto> ''red'']\<rparr>"

definition color_schema :: pydantic_schema where
  "color_schema =
     \<lparr>schema_fields = [''color''],
      schema_validate = (\<lambda>kwargs.
         if map_of kwargs ''color'' = Some (PStr ''red'')
         then Inr (PModel ''Schema'' [(''color'', PEnum ''Color.RED'' (PStr ''red''))])
         else Inl ValidationError)\<rparr>"

definition upload_route :: "string option \<Rightarrow> paired_params" where
  "upload_route alias = [declared ''f'' File alias (AClass ''str'')]"

definition upload_request :: "string \<Rightarrow> request" where
  "upload_request name = (empty_request ''POST'')
     \<lparr>req_files := [name \<mapsto> PFile ''a.txt'' ''data'']\<rparr>"

definition create_inspector :: inspector where
  "create_inspector func =
     (if func = AFunc ''create''
      then Inr \<lparr>fi_params =
                  [(''user'', ParamDefault (new_param Body PEllipsis)),
                   (''meta'', ParamDefault
                      ((new_param Body PEllipsis)\<lparr>po_alias := Some ''metadata''\<rparr>))],
                fi_annots = [(''user'', AModel ''UserModel''), (''meta'', AModel ''MetaModel'')]\<rparr>
      else Inl TypeError)"

definition registered_create :: paired_params where
  "registered_create =
     [(''user'', \<lparr>ps_name = ''user'', ps_type = AModel ''UserModel'',
                 param_object = \<lparr>po_kind = Body, po_default = PEllipsis, po_alias = None,
                                  po_dtype = AModel ''UserModel''\<rparr>\<rparr>),
      (''meta'', \<lparr>ps_name = ''meta'', ps_type = AModel ''MetaModel'',
                 param_object = \<lparr>po_kind = Body, po_default = PEllipsis, po_alias = None,
                                  po_dtype = AModel ''MetaModel''\<rparr>\<rparr>)]"

definition create_request :: "string \<Rightarrow> request" where
  "create_request meta_key = (empty_request ''POST'')
     \<lparr>req_json := Inr (PDict [(''user'', PDict [(''name'', PStr ''a'')]),
                               (meta_key, PDict [(''v'', PInt 1)])])\<rparr>"

definition search_route :: paired_params where
  "search_route =
     [declared ''id'' Path None (AClass ''int''),
      declared ''q'' Query (Some ''search'') (AClass ''str''),
      declared ''page'' Query None (AClass ''int'')]"

definition search_request :: request where
  "search_request = (empty_request ''GET'')\<lparr>req_args := [''search'' \<mapsto> ''x'']\<rparr>"

definition clash_route :: paired_params where
  "clash_route =
     [declared ''id'' Path None (AClass ''int''),
      declared ''q'' Query (Some ''id'') (AClass ''str'')]"

definition clash_request :: request where
  "clash_request = (empty_request ''GET'')\<lparr>req_args := [''id'' \<mapsto> ''9'']\<rparr>"

definition token_inspector :: inspector where
  "token_inspector func =
     (if func = AFunc ''list_items''
      then Inr \<lparr>fi_params = [(''page'', PlainDefault (PInt 1))],
                fi_annots = [(''page'', AClass ''int'')]\<rparr>
      else if func = AFunc ''get_token''
      then Inr \<lparr>fi_params = [(''token'', NoDefault)], fi_annots = [(''token'', AClass ''str'')]\<rparr>
      else Inl TypeError)"

subsection \<open>Route patterns as the specification describes them\<close>

text \<open>
  The specification's words for a route pattern: literal text and placeholders
  \<^verbatim>\<open><name>\<close> or \<^verbatim>\<open><type:name>\<close>. \<open>native_rule\<close> writes a pattern in the router's
  bracket syntax, \<open>documentation_rule\<close> in the documentation's brace syntax with the
  type prefix and the colon left out. Literal text holds no angle bracket; a name
  and a type hold no angle bracket and no colon. These definitions follow the
  specification, not the code; the code is compared with them.
\<close>

datatype segment = Lit string | Placeholder "string option" string

definition plain :: "string \<Rightarrow> bool" where
  "plain s = (CHR ''<'' \<notin> set s \<and> CHR ''>'' \<notin> set s)"

fun wf_segment :: "segment \<Rightarrow> bool" where
  "wf_segment (Lit s) = plain s"
| "wf_segment (Placeholder None n) = (plain n \<and> CHR '':'' \<notin> set n)"
| "wf_segment (Placeholder (Some t) n) =
     (plain n \<and> CHR '':'' \<notin> set n \<and> plain t \<and> CHR '':'' \<notin> set t)"

fun native :: "segment \<Rightarrow> string" where
  "native (Lit s) = s"
| "native (Placeholder None n) = ''<'' @ n @ ''>''"
| "native (Placeholder (Some t) n) = ''<'' @ t @ '':'' @ n @ ''>''"

fun untyped :: "segment \<Rightarrow> string" where
  "untyped (Lit s) = s"
| "untyped (Placeholder t n) = ''<'' @ n @ ''>''"

fun braced :: "segment \<Rightarrow> string" where
  "braced (Lit s) = s"
| "braced (Placeholder t n) = ''{'' @ n @ ''}''"

definition native_rule :: "segment list \<Rightarrow> string" where
  "native_rule segs = concat (map native segs)"

definition documentation_rule :: "segment list \<Rightarrow> string" where
  "documentation_rule segs = concat (map braced segs)"

section \<open>Theorems\<close>

subsection \<open>C9: enum normalisation is total and the identity on other values\<close>

text \<open>
  C9. \<open>fill_all_enum_value\<close> returns a value on every input (it is a total recursive
  function whose result type carries no exception), and on every input that is
  neither a dictionary nor an enum member it returns the input unchanged.
\<close>

theorem fill_all_enum_value_identity:
  assumes "\<not> is_dict v" and "\<not> is_enum v"
  shows "fill_all_enum_value v = v"
  using assms by (cases v) simp_all

theorem fill_all_enum_value_identity_witness:
  "\<not> is_dict (PList [PEnum ''Color.RED'' (PStr ''red'')])
   \<and> \<not> is_enum (PList [PEnum ''Color.RED'' (PStr ''red'')])
   \<and> fill_all_enum_value (PList [PEnum ''Color.RED'' (PStr ''red'')])
       = PList [PEnum ''Color.RED'' (PStr ''red'')]"
  using fill_all_enum_value_identity [of "PList [PEnum ''Color.RED'' (PStr ''red'')]"]
  by simp

subsection \<open>The rule validation loop on well-formed patterns\<close>

lemma strip_type_untyped: "CHR '':'' \<notin> set n \<Longrightarrow> strip_type n = n"
  by (simp add: strip_type_def count_list_0_iff)

lemma takeWhile_colon: "CHR '':'' \<notin> set t \<Longrightarrow> takeWhile (\<lambda>c. c \<noteq> CHR '':'') (t @ CHR '':'' # n) = t"
  by (induction t) auto

lemma strip_type_typed: "CHR '':'' \<notin> set t \<Longrightarrow> strip_type (t @ CHR '':'' # n) = n"
  by (simp add: strip_type_def takeWhile_colon count_list_0_iff)

lemma rule_loop_plain:
  "plain s \<Longrightarrow> rule_loop acc False sp (s @ rest) = rule_loop (acc @ s) False sp rest"
  by (induction s arbitrary: acc) (auto simp: plain_def)

lemma rule_loop_body:
  "plain s \<Longrightarrow> rule_loop acc True (sp @ [x]) (s @ rest) = rule_loop acc True (sp @ [x @ s]) rest"
  by (induction s arbitrary: x) (auto simp: plain_def)

lemma rule_loop_close:
  "rule_loop acc True (sp @ [x]) (CHR ''>'' # rest)
     = rule_loop (acc @ ''<'' @ strip_type x @ ''>'') False (sp @ [strip_type x]) rest"
  by (simp add: Let_def)

lemma rule_loop_open:
  "rule_loop acc w sp (CHR ''<'' # rest) = rule_loop acc True (sp @ [[]]) rest"
  by simp

lemma rule_loop_placeholder:
  assumes "wf_segment (Placeholder t n)"
  shows "rule_loop acc False sp (native (Placeholder t n) @ rest)
           = rule_loop (acc @ ''<'' @ n @ ''>'') False (sp @ [n]) rest"
proof (cases t)
  case None
  with assms have n: "plain n" "CHR '':'' \<notin> set n" by simp_all
  have "rule_loop acc False sp (native (Placeholder t n) @ rest)
          = rule_loop acc True (sp @ [[]]) (n @ CHR ''>'' # rest)"
    using None by simp
  also have "\<dots> = rule_loop acc True (sp @ [n]) (CHR ''>'' # rest)"
    using rule_loop_body [OF n(1), of acc sp "[]" "CHR ''>'' # rest"] by simp
  also have "\<dots> = rule_loop (acc @ ''<'' @ n @ ''>'') False (sp @ [n]) rest"
    unfolding rule_loop_close by (simp add: strip_type_untyped [OF n(2)])
  finally show ?thesis .
next
  case (Some ty)
  with assms have n: "plain n" "CHR '':'' \<notin> set n" and ty: "plain ty" "CHR '':'' \<notin> set ty"
    by simp_all
  have body: "plain (ty @ CHR '':'' # n)"
    using n ty by (simp add: plain_def)
  have "rule_loop acc False sp (native (Placeholder t n) @ rest)
          = rule_loop acc True (sp @ [[]]) ((ty @ CHR '':'' # n) @ CHR ''>'' # rest)"
    using Some by simp
  also have "\<dots> = rule_loop acc True (sp @ [ty @ CHR '':'' # n]) (CHR ''>'' # rest)"
    using rule_loop_body [OF body, of acc sp "[]" "CHR ''>'' # rest"] by simp
  also have "\<dots> = rule_loop (acc @ ''<'' @ n @ ''>'') False (sp @ [n]) rest"
    unfolding rule_loop_close by (simp add: strip_type_typed [OF ty(2)])
  finally show ?thesis .
qed

lemma rule_loop_segment:
  assumes "wf_segment g"
  shows "\<exists>sp'. rule_loop acc False sp (native g @ rest) = rule_loop (acc @ untyped g) False sp' rest"
proof (cases g)
  case (Lit s)
  with assms show ?thesis using rule_loop_plain [of s acc sp rest] by auto
next
  case (Placeholder t n)
  with assms show ?thesis using rule_loop_placeholder [of t n acc sp rest] by auto
qed

lemma rule_loop_segments:
  "list_all wf_segment segs \<Longrightarrow>
     \<exists>sp'. rule_loop acc False sp (concat (map native segs) @ rest)
            = rule_loop (acc @ concat (map untyped segs)) False sp' rest"
proof (induction segs arbitrary: acc sp)
  case Nil
  then show ?case by auto
next
  case (Cons g segs)
  then have g: "wf_segment g" and segs: "list_all wf_segment segs" by simp_all
  obtain sp1 where 1: "rule_loop acc False sp (native g @ (concat (map native segs) @ rest))
      = rule_loop (acc @ untyped g) False sp1 (concat (map native segs) @ rest)"
    using rule_loop_segment [OF g] by blast
  obtain sp2 where 2: "rule_loop (acc @ untyped g) False sp1 (concat (map native segs) @ rest)
      = rule_loop ((acc @ untyped g) @ concat (map untyped segs)) False sp2 rest"
    using Cons.IH [OF segs] by blast
  show ?case using 1 2 by auto
qed

lemma rule_loop_native:
  assumes "list_all wf_segment segs"
  shows "rule_loop [] False [] (native_rule segs) = Inr (concat (map untyped segs))"
  using rule_loop_segments [OF assms, of "[]" "[]" "[]"] by (auto simp: native_rule_def)

lemma swagger_outside:
  "CHR ''<'' \<notin> set s \<Longrightarrow> swagger_loop False acc (s @ rest) = swagger_loop False (acc @ s) rest"
  by (induction s arbitrary: acc) auto

lemma swagger_inside:
  "CHR ''>'' \<notin> set s \<Longrightarrow> swagger_loop True acc (s @ rest) = swagger_loop True (acc @ s) rest"
  by (induction s arbitrary: acc) auto

lemma swagger_segment:
  assumes "wf_segment g"
  shows "swagger_loop False acc (untyped g @ rest) = swagger_loop False (acc @ braced g) rest"
proof (cases g)
  case (Lit s)
  with assms show ?thesis using swagger_outside [of s acc rest] by (simp add: plain_def)
next
  case (Placeholder t n)
  with assms have "CHR ''>'' \<notin> set n" by (cases t) (simp_all add: plain_def)
  then show ?thesis
    using Placeholder swagger_inside [of n "acc @ ''{''" "CHR ''>'' # rest"] by simp
qed

lemma swagger_segments:
  "list_all wf_segment segs \<Longrightarrow>
     swagger_loop False acc (concat (map untyped segs) @ rest)
       = swagger_loop False (acc @ concat (map braced segs)) rest"
proof (induction segs arbitrary: acc)
  case Nil
  then show ?case by simp
next
  case (Cons g segs)
  then show ?case using swagger_segment [of g acc] by simp
qed

subsection \<open>C8: the documentation path of an accepted pattern\<close>

text \<open>
  C8. For every well-formed route pattern that registration accepts, the
  documentation path is the router's URL prefix followed by the pattern with each
  placeholder \<^verbatim>\<open><name>\<close> or \<^verbatim>\<open><type:name>\<close> replaced by \<^verbatim>\<open>{name}\<close> and every
  character outside placeholders unchanged: rule validation strips the type
  prefixes and the bracket-to-brace rewrite does the rest. The URL prefix is
  literal text (it opens no placeholder).
\<close>

theorem documentation_path_of_accepted_rule:
  assumes wf: "list_all wf_segment segs"
    and prefix: "CHR ''<'' \<notin> set url_prefix"
    and accepted: "method_route_rule url_prefix (native_rule segs) = Inr documented"
  shows "documented = url_prefix @ documentation_rule segs"
proof -
  have loop: "rule_loop [] False [] (native_rule segs) = Inr (concat (map untyped segs))"
    by (rule rule_loop_native [OF wf])
  have "validate_rule (native_rule segs) = Inr (concat (map untyped segs))"
  proof (cases "validate_rule (native_rule segs)")
    case (Inl e)
    with accepted show ?thesis by (simp add: method_route_rule_def)
  next
    case (Inr r)
    then show ?thesis using loop by (simp add: validate_rule_def split: if_splits)
  qed
  with accepted have "documented = validate_rule_for_swagger (url_prefix @ concat (map untyped segs))"
    by (auto simp: method_route_rule_def split: list.splits if_splits)
  also have "\<dots> = swagger_loop False url_prefix (concat (map untyped segs) @ [])"
    using swagger_outside [OF prefix, of "[]" "concat (map untyped segs)"]
    by (simp add: validate_rule_for_swagger_def)
  also have "\<dots> = url_prefix @ documentation_rule segs"
    using swagger_segments [OF wf, of url_prefix "[]"] by (simp add: documentation_rule_def)
  finally show ?thesis .
qed

theorem documentation_path_of_accepted_rule_witness:
  "list_all wf_segment [Lit ''/a/'', Placeholder (Some ''int'') ''x'', Lit ''/b/'', Placeholder None ''y'']
   \<and> CHR ''<'' \<notin> set ''/api''
   \<and> method_route_rule ''/api'' ''/a/<int:x>/b/<y>'' = Inr ''/api/a/{x}/b/{y}''
   \<and> ''/api/a/{x}/b/{y}''
      = ''/api'' @ documentation_rule [Lit ''/a/'', Placeholder (Some ''int'') ''x'', Lit ''/b/'', Placeholder None ''y'']"
proof -
  let ?segs = "[Lit ''/a/'', Placeholder (Some ''int'') ''x'', Lit ''/b/'', Placeholder None ''y'']"
  have wf: "list_all wf_segment ?segs" by (simp add: plain_def)
  have px: "CHR ''<'' \<notin> set ''/api''" by simp
  have nat: "native_rule ?segs = ''/a/<int:x>/b/<y>''" by (simp add: native_rule_def)
  have acc: "method_route_rule ''/api'' (native_rule ?segs) = Inr ''/api/a/{x}/b/{y}''"
    unfolding nat by code_simp
  from documentation_path_of_accepted_rule [OF wf px acc] wf px acc show ?thesis unfolding nat by simp
qed


subsection \<open>C3: two typed placeholders in one pattern\<close>

text \<open>
  C3. Rule validation is meant to fail only when one placeholder holds more than
  one colon. On the pattern \<^verbatim>\<open>/a/<int:x>/b/<int:y>\<close>, in which each placeholder
  holds one colon, the greedy expression matches \<^verbatim>\<open><int:x>/b/<int:y>\<close> as a single
  text with two colons, and the assertion fails.
\<close>

theorem validate_rule_two_typed_placeholders:
  "validate_rule ''/a/<int:x>/b/<int:y>'' = Inl AssertionError"
  by code_simp


subsection \<open>C4: the path-membership check\<close>

lemma occurrences_skip:
  assumes "hd pat \<notin> set t" "pat \<noteq> []"
  shows "occurrences pat (t @ r) = occurrences pat r"
  using assms
proof (induction t)
  case Nil
  then show ?case by simp
next
  case (Cons a t)
  have "take (length pat) (a # t @ r) \<noteq> pat"
  proof
    assume "take (length pat) (a # t @ r) = pat"
    then have "hd pat = a" using Cons.prems(2) by (cases pat) auto
    with Cons.prems(1) show False by simp
  qed
  with Cons show ?case by simp
qed

lemma occurrences_match:
  assumes "CHR ''<'' \<notin> set key" and "take (length (''<'' @ key @ ''>'')) path = ''<'' @ key @ ''>''"
  shows "occurrences (''<'' @ key @ ''>'') path
           = Suc (occurrences (''<'' @ key @ ''>'') (drop (length (''<'' @ key @ ''>'')) path))"
proof -
  let ?pat = "''<'' @ key @ ''>''"
  have path: "path = ?pat @ drop (length ?pat) path"
    using assms(2) by (metis append_take_drop_id)
  obtain r where r: "drop (length ?pat) path = r" by simp
  have p: "path = CHR ''<'' # ((key @ ''>'') @ r)" using path r by simp
  have "occurrences ?pat path = Suc (occurrences ?pat ((key @ ''>'') @ r))"
    using assms(2) by (subst p) (simp add: p)
  also have "occurrences ?pat ((key @ ''>'') @ r) = occurrences ?pat r"
    by (rule occurrences_skip) (use assms(1) in auto)
  finally show ?thesis using r by simp
qed

lemma length_findall_placeholder:
  "CHR ''<'' \<notin> set key \<Longrightarrow> length (findall_placeholder key path) = placeholder_count key path"
proof (induction key path rule: findall_placeholder.induct)
  case (1 key path)
  let ?pat = "''<'' @ key @ ''>''"
  show ?case
  proof (cases "path = []")
    case True
    then show ?thesis
      by (subst findall_placeholder.simps) (simp add: placeholder_count_def)
  next
    case ne: False
    show ?thesis
    proof (cases "take (length ?pat) path = ?pat")
      case True
      have "length (findall_placeholder key path)
              = Suc (length (findall_placeholder key (drop (length ?pat) path)))"
        using ne True by (subst findall_placeholder.simps) (simp add: Let_def)
      also have "\<dots> = Suc (placeholder_count key (drop (length ?pat) path))"
        using "1.IH"(1) [OF refl ne True] "1.prems" by simp
      also have "\<dots> = placeholder_count key path"
        using occurrences_match [OF "1.prems" True] by (simp add: placeholder_count_def)
      finally show ?thesis .
    next
      case False
      obtain c cs where cs: "path = c # cs" using ne by (cases path) auto
      have "length (findall_placeholder key path) = length (findall_placeholder key (tl path))"
        using ne False by (subst findall_placeholder.simps) (simp add: Let_def)
      also have "\<dots> = placeholder_count key (tl path)"
        using "1.IH"(2) [OF refl ne False] "1.prems" by simp
      also have "\<dots> = placeholder_count key path"
        using False cs by (simp add: placeholder_count_def)
      finally show ?thesis .
    qed
  qed
qed

text \<open>
  C4. For every parameter name (an identifier, so without \<^verbatim>\<open><\<close>) and every route
  pattern, \<open>check_params_in_path\<close> returns true when the name appears exactly once as
  a placeholder \<^verbatim>\<open><name>\<close>, raises the path-configuration error when it appears more
  than once, and returns false when it does not appear. The check takes no HTTP
  method.
\<close>

theorem check_params_in_path_counts:
  assumes "CHR ''<'' \<notin> set key"
  shows "check_params_in_path key path =
           (if placeholder_count key path = 1 then Inr True
            else if placeholder_count key path > 1 then Inl SwaggerPathError
            else Inr False)"
  by (simp add: check_params_in_path_def Let_def length_findall_placeholder [OF assms])

theorem check_params_in_path_counts_witness:
  "CHR ''<'' \<notin> set ''id''
   \<and> placeholder_count ''id'' ''/items/<id>/sub/<id>'' = 2
   \<and> check_params_in_path ''id'' ''/items/<id>/sub/<id>'' = Inl SwaggerPathError
   \<and> placeholder_count ''id'' ''/items/<id>'' = 1
   \<and> check_params_in_path ''id'' ''/items/<id>'' = Inr True
   \<and> placeholder_count ''id'' ''/items/<idx>'' = 0
   \<and> check_params_in_path ''id'' ''/items/<idx>'' = Inr False"
proof -
  have k: "CHR ''<'' \<notin> set ''id''" by simp
  have a: "placeholder_count ''id'' ''/items/<id>/sub/<id>'' = 2"
    and b: "placeholder_count ''id'' ''/items/<id>'' = 1"
    and c: "placeholder_count ''id'' ''/items/<idx>'' = 0"
    by (simp_all add: placeholder_count_def)
  show ?thesis
    using k a b c check_params_in_path_counts [OF k, of "''/items/<id>/sub/<id>''"] check_params_in_path_counts [OF k, of "''/items/<id>''"]
      check_params_in_path_counts [OF k, of "''/items/<idx>''"]
    by simp
qed

subsection \<open>Facts about the dictionaries\<close>

lemma set_update_subset: "set (AList.update k v al) \<subseteq> insert (k, v) (set al)"
  by (induction al) auto

lemma set_dict_update: "set (dict_update d e) \<subseteq> set d \<union> set e"
proof (induction e arbitrary: d)
  case Nil
  then show ?case by (simp add: dict_update_def)
next
  case (Cons kv e)
  have "set (dict_update d (kv # e)) = set (dict_update (AList.update (fst kv) (snd kv) d) e)"
    by (simp add: dict_update_def)
  also have "\<dots> \<subseteq> set (AList.update (fst kv) (snd kv) d) \<union> set e"
    by (rule Cons.IH)
  also have "\<dots> \<subseteq> set d \<union> set (kv # e)"
    using set_update_subset [of "fst kv" "snd kv" d] by auto
  finally show ?case .
qed

lemma keys_dict_update: "fst ` set (dict_update d e) = fst ` set d \<union> fst ` set e"
proof (induction e arbitrary: d)
  case Nil
  then show ?case by (simp add: dict_update_def)
next
  case (Cons kv e)
  have "dict_update d (kv # e) = dict_update (AList.update (fst kv) (snd kv) d) e"
    by (simp add: dict_update_def)
  then show ?case using Cons.IH [of "AList.update (fst kv) (snd kv) d"]
    by (auto simp: dom_update)
qed

lemma map_of_dict_update_functional:
  assumes "\<And>kv. kv \<in> set e \<Longrightarrow> snd kv = f (fst kv)"
  shows "map_of (dict_update d e) n = (if n \<in> fst ` set e then Some (f n) else map_of d n)"
  using assms
proof (induction e arbitrary: d)
  case Nil
  then show ?case by (simp add: dict_update_def)
next
  case (Cons kv e)
  have step: "dict_update d (kv # e) = dict_update (AList.update (fst kv) (snd kv) d) e"
    by (simp add: dict_update_def)
  have kv: "snd kv = f (fst kv)" using Cons.prems by simp
  have "map_of (dict_update (AList.update (fst kv) (snd kv) d) e) n
          = (if n \<in> fst ` set e then Some (f n) else map_of (AList.update (fst kv) (snd kv) d) n)"
    using Cons.IH [of "AList.update (fst kv) (snd kv) d"] Cons.prems by simp
  then show ?case unfolding step using kv by (auto simp: update_conv')
qed

lemma map_of_dict_of_functional:
  assumes "\<And>kv. kv \<in> set e \<Longrightarrow> snd kv = f (fst kv)"
  shows "map_of (dict_update d (dict_of e)) n = (if n \<in> fst ` set e then Some (f n) else map_of d n)"
proof -
  have sub: "set (dict_of e) \<subseteq> set e"
    using set_dict_update [of "[]" e] by (simp add: dict_of_def)
  have keys: "fst ` set (dict_of e) = fst ` set e"
    using keys_dict_update [of "[]" e] by (simp add: dict_of_def)
  have "map_of (dict_update d (dict_of e)) n
          = (if n \<in> fst ` set (dict_of e) then Some (f n) else map_of d n)"
    by (rule map_of_dict_update_functional) (use sub assms in blast)
  then show ?thesis by (simp only: keys)
qed

lemma map_filter_query_keys:
  "fst ` set (List.map_filter
      (\<lambda>k. case m k of None \<Rightarrow> None | Some v \<Rightarrow> Some (k, PStr v)) ks)
     = {k \<in> set ks. m k \<noteq> None}"
  by (induction ks) (auto split: option.splits)

lemma map_filter_query_values:
  "kv \<in> set (List.map_filter
      (\<lambda>k. case m k of None \<Rightarrow> None | Some v \<Rightarrow> Some (k, PStr v)) ks)
     \<Longrightarrow> snd kv = PStr (the (m (fst kv)))"
  by (induction ks) (auto split: option.splits)

lemma map_of_query_merged:
  "map_of (query_merged paths req al variables) n
     = (if n \<in> set (convert_alias_to_name (al_query al) variables) \<and> req_args req n \<noteq> None
        then Some (PStr (the (req_args req n))) else map_of paths n)"
  unfolding query_merged_def query_kwargs_def
  by (subst map_of_dict_of_functional [where f = "\<lambda>k. PStr (the (req_args req k))"])
     (auto simp: map_filter_query_keys dest: map_filter_query_values)

lemma alias_in_converted:
  "key \<in> set variables \<Longrightarrow> map_of al key = Some a \<Longrightarrow> a \<in> set (convert_alias_to_name al variables)"
  unfolding convert_alias_to_name_def by (induction variables) (auto split: option.splits)

lemmas request_binding_defs =
  get_kwargs_def bound_kwargs_def working_kwargs_def query_merged_def
  query_kwargs_def header_kwargs_def form_kwargs_def file_kwargs_def dummy_file_kwargs_def
  dict_of_def dict_update_def get_params_aliases_def add_alias_def alias_or_def
  convert_alias_to_name_def count_required_body_def get_non_exist_var_in_kwargs_def
  body_value_def json_get_def call_with_kwargs_def
  plain_constructor_def alias_schema_def declared_def empty_request_def Let_def

subsection \<open>C7: merging the query parameters\<close>

text \<open>
  C7 (as amended). For every route and request and every binding key of the schema
  whose source is Query and whose wire name is among the query parameters, the
  query value is in the working set under the wire name (the alias when one is
  declared, else the binding key), whatever the path values held under that name;
  every name that is not the wire name of such a present query parameter keeps
  the value the path parameters gave it.
\<close>

theorem query_merged_under_wire_name:
  assumes "key \<in> set variables" and "map_of (al_query al) key = Some a"
    and "req_args req a = Some v"
  shows "map_of (query_merged paths req al variables) a = Some (PStr v)
       \<and> (n \<notin> {k \<in> set (convert_alias_to_name (al_query al) variables). req_args req k \<noteq> None}
            \<longrightarrow> map_of (query_merged paths req al variables) n = map_of paths n)"
  using assms alias_in_converted [OF assms(1,2)] by (auto simp: map_of_query_merged)

theorem query_merged_under_wire_name_witness:
  "''q'' \<in> set [''id'', ''q'', ''page'']
   \<and> map_of (al_query (get_params_aliases search_route)) ''q'' = Some ''search''
   \<and> req_args search_request ''search'' = Some ''x''
   \<and> map_of (query_merged [(''id'', PInt 5)] search_request (get_params_aliases search_route)
         [''id'', ''q'', ''page'']) ''search'' = Some (PStr ''x'')
   \<and> map_of (query_merged [(''id'', PInt 5)] search_request (get_params_aliases search_route)
         [''id'', ''q'', ''page'']) ''id'' = Some (PInt 5)"
proof -
  let ?al = "get_params_aliases search_route"
  have 1: "''q'' \<in> set [''id'', ''q'', ''page'']" by simp
  have 2: "map_of (al_query ?al) ''q'' = Some ''search''"
    by (simp add: request_binding_defs search_route_def)
  have 3: "req_args search_request ''search'' = Some ''x''"
    by (simp add: search_request_def empty_request_def)
  have 4: "''id'' \<notin> {k \<in> set (convert_alias_to_name (al_query ?al) [''id'', ''q'', ''page'']).
              req_args search_request k \<noteq> None}"
    by (simp add: request_binding_defs search_route_def search_request_def)
  from query_merged_under_wire_name [OF 1 2 3, of "[(''id'', PInt 5)]" "''id''"] 1 2 3 4
  show ?thesis by simp
qed

text \<open>
  C7 as first stated (the value is merged under the binding key, and no path value
  is ever overwritten) fails on two inputs, both with the path value \<^verbatim>\<open>id = 5\<close>. On
  \<open>search_route\<close> with the query string \<^verbatim>\<open>?search=x\<close> nothing is stored under the
  binding key \<^verbatim>\<open>q\<close>. On \<open>clash_route\<close> with the query string \<^verbatim>\<open>?id=9\<close> the path value
  of \<^verbatim>\<open>id\<close> is replaced by the query value.
\<close>

theorem query_merge_counterexample:
  "map_of (query_merged [(''id'', PInt 5)] search_request (get_params_aliases search_route)
      [''id'', ''q'', ''page'']) ''q'' = None
   \<and> map_of (query_merged [(''id'', PInt 5)] clash_request (get_params_aliases clash_route)
      [''id'', ''q'']) ''id'' = Some (PStr ''9'')"
  by (simp add: request_binding_defs search_route_def search_request_def clash_route_def
      clash_request_def)

subsection \<open>Facts about the Body loop\<close>

lemma body_loop_other:
  "body_loop mk req pp total_body ks kw = Inr kw' \<Longrightarrow> k \<notin> set ks \<Longrightarrow> map_of kw' k = map_of kw k"
proof (induction ks arbitrary: kw)
  case Nil
  then show ?case by simp
next
  case (Cons x ks)
  then show ?case
    by (auto simp: update_conv' split: option.splits if_splits sum.splits)
qed

lemma body_loop_key:
  assumes "body_loop mk req pp total_body ks kw = Inr kw'" and "k \<in> set ks"
    and "map_of pp k = Some sg" and "po_kind (param_object sg) = Body"
  shows "\<exists>v. body_value mk req total_body k (param_object sg) = Inr v \<and> map_of kw' k = Some v"
  using assms(1,2)
proof (induction ks arbitrary: kw)
  case Nil
  then show ?case by simp
next
  case (Cons x ks)
  show ?case
  proof (cases "k \<in> set ks")
    case True
    with Cons show ?thesis
      by (auto split: option.splits if_splits sum.splits)
  next
    case False
    with Cons.prems(2) have x: "x = k" by simp
    from Cons.prems(1) x assms(3,4) obtain v where
      v: "body_value mk req total_body k (param_object sg) = Inr v"
      and rest: "body_loop mk req pp total_body ks (AList.update k v kw) = Inr kw'"
      by (auto split: sum.splits)
    from body_loop_other [OF rest False] have "map_of kw' k = Some v"
      by (simp add: update_conv')
    with v show ?thesis by blast
  qed
qed

lemma count_required_body_pos:
  assumes "map_of pp k = Some sg" and "po_kind (param_object sg) = Body"
  shows "count_required_body pp \<noteq> 0"
proof -
  from assms(1) have "(k, sg) \<in> set pp" by (rule map_of_SomeD)
  with assms(2) have "filter (\<lambda>item. po_kind (param_object (snd item)) = Body) pp \<noteq> []"
    by (auto simp: filter_empty_conv intro!: bexI [of _ "(k, sg)"])
  then show ?thesis by (simp add: count_required_body_def)
qed

subsection \<open>C1: Body parameters with a structured type and an alias\<close>

lemma user_not_in_create: "check_params_in_path ''user'' ''/create'' = Inr False"
  by code_simp

lemma meta_not_in_create: "check_params_in_path ''meta'' ''/create'' = Inr False"
  by code_simp

text \<open>
  C1. With two or more Body parameters of a structured type, each value is meant
  to be constructed from the payload's entry under the parameter's wire name, the
  alias if one is declared. \<^verbatim>\<open>get_kwargs\<close> reads \<^verbatim>\<open>po.alias or k\<close>, but registration
  has replaced every Body whose annotation unwraps to a model class by
  \<^verbatim>\<open>Body(default_value.default, pydantic_model=pydantic_model)\<close>, which carries no
  alias. On the handler
  \<^verbatim>\<open>create(user: UserModel = Body(...), meta: MetaModel = Body(..., alias="metadata"))\<close>
  the resolved signature holds no alias; for a POST with the payload
  \<^verbatim>\<open>{"user": {...}, "metadata": {...}}\<close> the entry \<^verbatim>\<open>metadata\<close> is never read, the lookup
  of \<^verbatim>\<open>meta\<close> gives \<^verbatim>\<open>None\<close> and \<^verbatim>\<open>MetaModel(**None)\<close> ends the binding of both
  parameters with \<open>TypeError\<close>. The same payload with the object under the binding
  key \<^verbatim>\<open>meta\<close> binds both.
\<close>

theorem declared_body_alias_dropped:
  "route create_inspector (Suc depth) [] ''/create'' [] (AFunc ''create'')
     = ([], Inr registered_create)
   \<and> map (\<lambda>item. po_alias (param_object (snd item))) registered_create = [None, None]
   \<and> get_kwargs plain_constructor [] (create_request ''metadata'') registered_create
        (alias_schema [(''user'', ''user''), (''meta'', ''metadata'')])
        (get_params_aliases registered_create)
      = Inl TypeError
   \<and> bound_kwargs plain_constructor [] (create_request ''meta'') registered_create
        (alias_schema [(''user'', ''user''), (''meta'', ''metadata'')])
        (get_params_aliases registered_create)
      = Inr [(''user'', PModel ''UserModel'' [(''name'', PStr ''a'')]),
             (''meta'', PModel ''MetaModel'' [(''v'', PInt 1)])]"
  by (simp add: route_def create_inspector_def finish_param_def user_not_in_create
      meta_not_in_create new_param_def new_body_def is_form_class_def
      define_body_from_annots_def registered_create_def create_request_def
      request_binding_defs)

subsection \<open>C5: a GET request never reads the JSON payload\<close>

lemma body_value_get:
  "req_method req = ''GET'' \<Longrightarrow> body_value mk req total_body k po = Inr PNone"
  by (simp add: body_value_def)

lemma body_loop_get:
  "req_method req = ''GET'' \<Longrightarrow>
     body_loop mk (req\<lparr>req_json := payload\<rparr>) pp total_body ks kw = body_loop mk req pp total_body ks kw"
  by (induction ks arbitrary: kw) (auto simp: body_value_get split: option.splits)

lemma body_loop_get_total:
  "req_method req = ''GET'' \<Longrightarrow> \<exists>kw'. body_loop mk req pp total_body ks kw = Inr kw'"
  by (induction ks arbitrary: kw) (auto simp: body_value_get split: option.splits)

lemma working_kwargs_payload:
  "working_kwargs paths (req\<lparr>req_json := payload\<rparr>) al variables = working_kwargs paths req al variables"
  by (simp add: working_kwargs_def query_merged_def query_kwargs_def header_kwargs_def
      form_kwargs_def file_kwargs_def)

lemma bound_kwargs_get:
  "req_method req = ''GET'' \<Longrightarrow>
     bound_kwargs mk paths (req\<lparr>req_json := payload\<rparr>) pp pm al = bound_kwargs mk paths req pp pm al"
  by (simp add: bound_kwargs_def Let_def working_kwargs_payload body_loop_get)

text \<open>
  C5. For every GET request, the result of binding is the same whatever the JSON
  payload is (also one whose reading raises), for every handler, with or without a
  Body parameter; and every Body parameter that is absent from the working set
  after extraction is bound to \<^verbatim>\<open>None\<close> when validation is reached, which it always
  is.
\<close>

theorem get_request_ignores_payload:
  assumes get: "req_method req = ''GET''"
  shows "get_kwargs mk paths (req\<lparr>req_json := payload\<rparr>) paired_params pydantic_model al
           = get_kwargs mk paths req paired_params pydantic_model al
       \<and> (k \<in> set (get_non_exist_var_in_kwargs pydantic_model
                      (working_kwargs paths req al (schema_fields pydantic_model)))
            \<and> map_of paired_params k = Some sg \<and> po_kind (param_object sg) = Body
          \<longrightarrow> (\<exists>kwargs. bound_kwargs mk paths (req\<lparr>req_json := payload\<rparr>) paired_params
                            pydantic_model al = Inr kwargs
                        \<and> map_of kwargs k = Some PNone))"
proof (intro conjI impI)
  show "get_kwargs mk paths (req\<lparr>req_json := payload\<rparr>) paired_params pydantic_model al
           = get_kwargs mk paths req paired_params pydantic_model al"
    using get by (simp add: get_kwargs_def bound_kwargs_get split: sum.splits)
next
  let ?tb = "count_required_body paired_params"
  let ?work = "working_kwargs paths req al (schema_fields pydantic_model)"
  let ?empty = "get_non_exist_var_in_kwargs pydantic_model ?work"
  assume h: "k \<in> set ?empty \<and> map_of paired_params k = Some sg \<and> po_kind (param_object sg) = Body"
  then have absent: "k \<in> set ?empty" and sg: "map_of paired_params k = Some sg"
    and body: "po_kind (param_object sg) = Body" by simp_all
  have pos: "?tb \<noteq> 0" by (rule count_required_body_pos [OF sg body])
  obtain kwargs where loop: "body_loop mk req paired_params ?tb ?empty ?work = Inr kwargs"
    using body_loop_get_total [OF get] by blast
  from body_loop_key [OF loop absent sg body] have k: "map_of kwargs k = Some PNone"
    by (simp add: body_value_get [OF get])
  have "bound_kwargs mk paths (req\<lparr>req_json := payload\<rparr>) paired_params pydantic_model al = Inr kwargs"
    using get pos loop by (simp add: bound_kwargs_get) (simp add: bound_kwargs_def Let_def)
  with k show "\<exists>kwargs. bound_kwargs mk paths (req\<lparr>req_json := payload\<rparr>) paired_params
                            pydantic_model al = Inr kwargs
                        \<and> map_of kwargs k = Some PNone"
    by blast
qed

theorem get_request_ignores_payload_witness:
  "req_method get_body_request = ''GET''
   \<and> get_kwargs plain_constructor [] (get_body_request\<lparr>req_json := Inl RequestError\<rparr>)
        one_body_route (alias_schema [(''user'', ''user'')]) (get_params_aliases one_body_route)
      = get_kwargs plain_constructor [] get_body_request
        one_body_route (alias_schema [(''user'', ''user'')]) (get_params_aliases one_body_route)
   \<and> bound_kwargs plain_constructor [] (get_body_request\<lparr>req_json := Inl RequestError\<rparr>)
        one_body_route (alias_schema [(''user'', ''user'')]) (get_params_aliases one_body_route)
      = Inr [(''user'', PNone)]"
proof -
  let ?s1 = "alias_schema [(''user'', ''user'')]"
  let ?a1 = "get_params_aliases one_body_route"
  let ?user = "snd (declared ''user'' Body None (AModel ''UserModel''))"
  have g: "req_method get_body_request = ''GET''"
    by (simp add: get_body_request_def empty_request_def)
  have e1: "''user'' \<in> set (get_non_exist_var_in_kwargs ?s1
              (working_kwargs [] get_body_request ?a1 (schema_fields ?s1)))"
    by (simp add: request_binding_defs get_body_request_def one_body_route_def)
  have g1: "map_of one_body_route ''user'' = Some ?user"
    by (simp add: one_body_route_def declared_def)
  have b1: "po_kind (param_object ?user) = Body" by (simp add: declared_def)
  have r: "bound_kwargs plain_constructor [] (get_body_request\<lparr>req_json := Inl RequestError\<rparr>)
        one_body_route ?s1 ?a1 = Inr [(''user'', PNone)]"
    by (simp add: request_binding_defs get_body_request_def one_body_route_def)
  from get_request_ignores_payload [OF g, of plain_constructor "[]" "Inl RequestError" one_body_route ?s1 ?a1 "''user''" ?user]
    e1 g1 b1 g r
  show ?thesis by auto
qed

subsection \<open>C2: an enum member in the validated result\<close>

text \<open>
  C2. The handler is meant to receive the underlying value of every enum member of
  the validated result. On a GET route declaring \<^verbatim>\<open>color: Color = Query(...)\<close> and the
  query string \<^verbatim>\<open>?color=red\<close>, the validated model holds \<^verbatim>\<open>Color.RED\<close>;
  \<open>fill_all_enum_value\<close> is applied to the model instance, which is no dictionary,
  before \<^verbatim>\<open>vars\<close> is taken, so the handler receives the member \<^verbatim>\<open>Color.RED\<close> itself.
  Applied to the dictionary of the fields, the function gives the value \<^verbatim>\<open>red\<close>.
\<close>

theorem enum_member_reaches_handler:
  "get_kwargs plain_constructor [] color_request color_route color_schema
      (get_params_aliases color_route)
     = Inr [(''color'', PEnum ''Color.RED'' (PStr ''red''))]
   \<and> fill_all_enum_value (PDict [(''color'', PEnum ''Color.RED'' (PStr ''red''))])
     = PDict [(''color'', PStr ''red'')]"
  by (simp add: request_binding_defs color_request_def color_route_def color_schema_def)

subsection \<open>C6: an uploaded file under an alias\<close>

text \<open>
  C6. The handler is meant to receive the uploaded file under the binding key of a
  File parameter. On a POST route declaring \<^verbatim>\<open>f = File(alias="upload")\<close> with a file
  uploaded as \<^verbatim>\<open>upload\<close>, the file is added to the result under the wire name
  \<^verbatim>\<open>upload\<close>, and \<^verbatim>\<open>f\<close> keeps the validated placeholder \<^verbatim>\<open>__dummy\<close>. Without an alias
  the file replaces the placeholder under \<^verbatim>\<open>f\<close>.
\<close>

theorem aliased_file_not_bound:
  "get_kwargs plain_constructor [] (upload_request ''upload'') (upload_route (Some ''upload''))
      (alias_schema [(''f'', ''upload'')]) (get_params_aliases (upload_route (Some ''upload'')))
     = Inr [(''f'', PStr ''__dummy''), (''upload'', PFile ''a.txt'' ''data'')]
   \<and> get_kwargs plain_constructor [] (upload_request ''f'') (upload_route None)
      (alias_schema [(''f'', ''f'')]) (get_params_aliases (upload_route None))
     = Inr [(''f'', PFile ''a.txt'' ''data'')]"
  by (simp add: request_binding_defs upload_request_def upload_route_def)

subsection \<open>C10: router dependencies\<close>

lemma update_dependencies_append:
  "\<exists>new. update_dependencies dependecies stack = dependecies @ new
         \<and> set new = set stack - set dependecies \<and> distinct new"
proof (induction stack arbitrary: dependecies)
  case Nil
  then show ?case by simp
next
  case (Cons s stack)
  show ?case
  proof (cases "s \<in> set dependecies")
    case True
    with Cons.IH [of dependecies] show ?thesis by auto
  next
    case False
    from Cons.IH [of "dependecies @ [s]"] obtain new where
      new: "update_dependencies (dependecies @ [s]) stack = (dependecies @ [s]) @ new"
        "set new = set stack - set (dependecies @ [s])" "distinct new"
      by blast
    have "update_dependencies dependecies (s # stack) = dependecies @ (s # new)"
      using False new(1) by simp
    moreover have "set (s # new) = set (s # stack) - set dependecies"
      using False new(2) by auto
    moreover have "distinct (s # new)"
      using new(2,3) by auto
    ultimately show ?thesis by blast
  qed
qed

lemma update_dependencies_distinct:
  assumes "distinct dependecies"
  shows "distinct (update_dependencies dependecies stack)"
proof -
  obtain new where "update_dependencies dependecies stack = dependecies @ new"
    "set new = set stack - set dependecies" "distinct new"
    using update_dependencies_append by blast
  with assms show ?thesis by auto
qed

lemma dependency_loop_raises:
  assumes "\<And>d. py_callable d \<Longrightarrow> \<exists>e. recurse d = Inl e"
    and "\<exists>d \<in> set ds. py_callable d"
  shows "\<exists>e. dependency_loop recurse ds pair = Inl e"
  using assms(2)
proof (induction ds arbitrary: pair)
  case Nil
  then show ?case by simp
next
  case (Cons d ds)
  show ?case
  proof (cases "py_callable d")
    case True
    with assms(1) [of d] show ?thesis by auto
  next
    case False
    with Cons show ?thesis by auto
  qed
qed

lemma get_func_signature_raises:
  assumes "\<exists>d \<in> set dependecies. py_callable d"
  shows "\<exists>e. get_func_signature inspect dependecies path depth func = Inl e"
proof (induction depth arbitrary: func)
  case 0
  then show ?case by simp
next
  case (Suc depth)
  show ?case
  proof (cases "inspect func")
    case (Inl e)
    then show ?thesis by simp
  next
    case (Inr fi)
    show ?thesis
    proof (cases "own_params (get_func_signature inspect dependecies path depth) path
                    (fi_annots fi) (fi_params fi) []")
      case (Inl e)
      with Inr show ?thesis by simp
    next
      case own: (Inr pair)
      from dependency_loop_raises [of "get_func_signature inspect dependecies path depth",
          OF _ assms, of pair] Suc.IH
      obtain e where "dependency_loop (get_func_signature inspect dependecies path depth)
                        dependecies pair = Inl e"
        by blast
      with Inr own show ?thesis by simp
    qed
  qed
qed

lemma page_not_in_items: "check_params_in_path ''page'' ''/items'' = Inr False"
  by code_simp

lemma token_not_in_items: "check_params_in_path ''token'' ''/items'' = Inr False"
  by code_simp

lemma token_route_recursion:
  "get_func_signature token_inspector [AFunc ''get_token''] ''/items'' depth (AFunc ''list_items'')
     = Inl RecursionError
   \<and> get_func_signature token_inspector [AFunc ''get_token''] ''/items'' depth (AFunc ''get_token'')
     = Inl RecursionError"
proof (induction depth)
  case 0
  then show ?case by simp
next
  case (Suc depth)
  then show ?case
    by (simp add: token_inspector_def finish_param_def page_not_in_items token_not_in_items
        new_param_def is_form_class_def define_body_from_annots_def)
qed

text \<open>
  C10. A dependency given to a route is appended to the router's list, and is meant
  to be spliced into the signature of that route and of the later ones. On a
  router without dependencies, registering \<^verbatim>\<open>list_items\<close> under \<^verbatim>\<open>/items\<close> with the
  dependency \<^verbatim>\<open>get_token\<close> puts \<^verbatim>\<open>get_token\<close> in the list, and the resolution of the
  signature then calls itself on \<^verbatim>\<open>get_token\<close> at every depth, so that it ends with
  \<open>RecursionError\<close> whatever call depth is allowed. Without the dependency the
  signature is resolved.
\<close>

theorem dependency_recursion_on_registration:
  "route token_inspector depth [] ''/items'' [AFunc ''get_token''] (AFunc ''list_items'')
     = ([AFunc ''get_token''], Inl RecursionError)
   \<and> route token_inspector (Suc depth) [] ''/items'' [] (AFunc ''list_items'')
     = ([], Inr [(''page'', \<lparr>ps_name = ''page'', ps_type = AClass ''int'',
                    param_object = \<lparr>po_kind = Query, po_default = PInt 1, po_alias = None,
                                     po_dtype = ANone\<rparr>\<rparr>)])"
  using token_route_recursion [of depth]
  by (simp add: route_def token_inspector_def finish_param_def page_not_in_items
      new_param_def is_form_class_def define_body_from_annots_def)

end
